theory Spec2Isabelle
  imports Main "HOL-Library.AList"
begin

section \<open>Python values used by cck\_gpx.py\<close>

text \<open>
  Python strings are modelled as \<open>string\<close>; a \<open>char\<close> stands for a code point
  below 256.  Exceptions are values: every \<open>raise\<close> of the script, and every
  exception Python itself raises on the operations the script performs, is a
  constructor carrying the message.
\<close>

datatype pyerr =
    ValueError string
  | KeyError string
  | TypeError string
  | IndexError string
  | OSError string

definition bindE :: "pyerr + 'a \<Rightarrow> ('a \<Rightarrow> pyerr + 'b) \<Rightarrow> pyerr + 'b" where
  "bindE m f = (case m of Inl err \<Rightarrow> Inl err | Inr x \<Rightarrow> f x)"

text \<open>\<open>str.isspace\<close> on the code points below 256.\<close>

definition py_isspace :: "char \<Rightarrow> bool" where
  "py_isspace c =
     (let n = of_char c :: nat
      in (9 \<le> n \<and> n \<le> 13) \<or> (28 \<le> n \<and> n \<le> 32) \<or> n = 133 \<or> n = 160)"

definition rstrip :: "string \<Rightarrow> string" where
  "rstrip s = rev (dropWhile py_isspace (rev s))"

definition strip :: "string \<Rightarrow> string" where
  "strip s = rstrip (dropWhile py_isspace s)"

text \<open>\<open>str.split()\<close> with no argument: skip a run of whitespace, take a run of
  non-whitespace, repeat.\<close>

function split :: "string \<Rightarrow> string list" where
  "split s =
     (let s' = dropWhile py_isspace s
      in if s' = [] then []
         else takeWhile (\<lambda>c. \<not> py_isspace c) s'
              # split (dropWhile (\<lambda>c. \<not> py_isspace c) s'))"
  by pat_completeness auto
termination
proof (relation "measure length")
  show "wf (measure length)" by simp
next
  fix s s' :: string
  assume a: "s' = dropWhile py_isspace s" and ne: "s' \<noteq> []"
  from ne obtain c cs where s': "s' = c # cs" by (cases s') auto
  with a have "\<not> py_isspace c" by (metis hd_dropWhile list.sel(1) ne)
  then have "length (dropWhile (\<lambda>c. \<not> py_isspace c) s') \<le> length cs"
    using s' by (simp add: length_dropWhile_le)
  moreover have "length s' \<le> length s"
    using a by (simp add: length_dropWhile_le)
  ultimately show "(dropWhile (\<lambda>c. \<not> py_isspace c) s', s) \<in> measure length"
    using s' by simp
qed

declare split.simps [simp del]

text \<open>\<open>' '.join(xs)\<close>.\<close>

fun join_sp :: "string list \<Rightarrow> string" where
  "join_sp [] = []"
| "join_sp [x] = x"
| "join_sp (x # y # ys) = x @ '' '' @ join_sp (y # ys)"

text \<open>\<open>p in s\<close> for strings, and \<open>s.startswith(p)\<close>.\<close>

definition startswith :: "string \<Rightarrow> string \<Rightarrow> bool" where
  "startswith s p = (take (length p) s = p)"

fun contains :: "string \<Rightarrow> string \<Rightarrow> bool" where
  "contains [] p = (p = [])"
| "contains (c # cs) p = (startswith (c # cs) p \<or> contains cs p)"

text \<open>\<open>'%d' % n\<close> for a natural number.\<close>

definition digit_char :: "nat \<Rightarrow> char" where
  "digit_char d = char_of (48 + d)"

fun str_of_nat :: "nat \<Rightarrow> string" where
  "str_of_nat n = (if n < 10 then [digit_char n]
                   else str_of_nat (n div 10) @ [digit_char (n mod 10)])"

declare str_of_nat.simps [simp del]

text \<open>\<open>'%s' % x\<close> where \<open>x\<close> is a string or \<open>None\<close>, and \<open>"'%s'" % s\<close>.\<close>

definition fmt_s :: "string option \<Rightarrow> string" where
  "fmt_s x = (case x of None \<Rightarrow> ''None'' | Some s \<Rightarrow> s)"

definition quoted :: "string \<Rightarrow> string" where
  "quoted s = [CHR 0x27] @ s @ [CHR 0x27]"


section \<open>firstnameish\<close>

text \<open>\<open>re.match('[A-Za-z]\.?$', s)\<close>: one ASCII letter, an optional period, then the
  end of the string or a final newline.\<close>

definition ascii_letter :: "char \<Rightarrow> bool" where
  "ascii_letter c =
     (let n = of_char c :: nat in (65 \<le> n \<and> n \<le> 90) \<or> (97 \<le> n \<and> n \<le> 122))"

definition looks_initial :: "string \<Rightarrow> bool" where
  "looks_initial s =
     (case s of
        [] \<Rightarrow> False
      | c # r \<Rightarrow> ascii_letter c \<and>
          (r = [] \<or> r = ''.'' \<or> r = [CHR 0x0A] \<or> r = [CHR ''.'', CHR 0x0A]))"

text \<open>The body of \<open>for index in range(2)\<close>; the second argument is the list of
  indices still to visit, the third is \<open>namelist\<close>.  Reading a list or a string
  out of range raises \<open>IndexError\<close>.\<close>

fun gather :: "string list \<Rightarrow> nat list \<Rightarrow> string list \<Rightarrow> pyerr + string list" where
  "gather names [] namelist = Inr namelist"
| "gather names (index # rest) namelist =
     (if int index = int (length names) - 1 then
        (if index < length names then
           (case names ! index of
              [] \<Rightarrow> Inl (IndexError ''string index out of range'')
            | c # _ \<Rightarrow> Inr (namelist @ [[c] @ ''.'']))
         else Inl (IndexError ''list index out of range''))
      else if index < length names then
        (let namelist' = namelist @ [names ! index]
         in if \<not> looks_initial (names ! index) then Inr namelist'
            else gather names rest namelist')
      else Inl (IndexError ''list index out of range''))"

definition firstnameish :: "string \<Rightarrow> pyerr + string option" where
  "firstnameish fullname =
     (let names = split fullname
      in if length names = 0 then Inr None
         else if length names = 1 then Inr (Some (names ! 0))
         else bindE (gather names [0, 1] []) (\<lambda>namelist. Inr (Some (join_sp namelist))))"


section \<open>The document tree and the path queries the script evaluates\<close>

text \<open>
  The parsed HTML document, as the tree library presents it to path queries:
  elements with a tag, attributes and child nodes; text nodes; and the other
  node kinds (comments, processing instructions).
\<close>

datatype node =
    Element string "(string \<times> string) list" "node list"
  | Text string
  | Other string

fun iselement :: "node \<Rightarrow> bool" where
  "iselement (Element t a cs) = True"
| "iselement _ = False"

fun tag :: "node \<Rightarrow> string" where
  "tag (Element t a cs) = t"
| "tag _ = []"

fun child_nodes :: "node \<Rightarrow> node list" where
  "child_nodes (Element t a cs) = cs"
| "child_nodes _ = []"

text \<open>\<open>node.get(name)\<close>.\<close>

fun get_attr :: "node \<Rightarrow> string \<Rightarrow> string option" where
  "get_attr (Element t a cs) k = map_of a k"
| "get_attr _ k = None"

text \<open>\<open>node.text_content()\<close>: the text nodes below the node, concatenated in
  document order.\<close>

fun text_content :: "node \<Rightarrow> string" where
  "text_content (Element t a cs) = concat (map text_content cs)"
| "text_content (Text s) = s"
| "text_content (Other s) = []"

text \<open>All nodes strictly below a node, in document order.\<close>

fun descendants :: "node \<Rightarrow> node list" where
  "descendants (Element t a cs) = concat (map (\<lambda>c. c # descendants c) cs)"
| "descendants _ = []"

text \<open>XPath whitespace, and \<open>normalize-space(s) != ''\<close>.\<close>

definition xml_space :: "char \<Rightarrow> bool" where
  "xml_space c = (let n = of_char c :: nat in n = 32 \<or> n = 9 \<or> n = 10 \<or> n = 13)"

definition nonblank :: "string \<Rightarrow> bool" where
  "nonblank s = (\<exists>c \<in> set s. \<not> xml_space c)"

fun nonblank_text :: "node \<Rightarrow> bool" where
  "nonblank_text (Text s) = nonblank s"
| "nonblank_text _ = False"

text \<open>\<open>startnode.xpath("*|text()[normalize-space()!='']")\<close>: the element children and
  the non-blank text children, in document order.\<close>

definition collect :: "node \<Rightarrow> node list" where
  "collect startnode =
     filter (\<lambda>c. iselement c \<or> nonblank_text c) (child_nodes startnode)"

text \<open>\<open>node.xpath(name)\<close>: the child elements with that tag.\<close>

definition xpath_child :: "node \<Rightarrow> string \<Rightarrow> node list" where
  "xpath_child n name = filter (\<lambda>c. iselement c \<and> tag c = name) (child_nodes n)"

text \<open>\<open>node.xpath('.//' + name)\<close>: the elements with that tag below the node.\<close>

definition xpath_desc :: "node \<Rightarrow> string \<Rightarrow> node list" where
  "xpath_desc n name = filter (\<lambda>c. iselement c \<and> tag c = name) (descendants n)"


section \<open>match\_tags\<close>

text \<open>
  A pattern is a list of dicts with the keys \<open>'e'\<close> (mandatory), \<open>'bind'\<close> and
  \<open>'opt'\<close>; an absent key is \<open>None\<close>.
\<close>

datatype slot = Slot string "string option" "bool option"

fun e_of :: "slot \<Rightarrow> string" where
  "e_of (Slot x b opt) = x"

fun bind_of :: "slot \<Rightarrow> string option" where
  "bind_of (Slot x b opt) = b"

fun opt_of :: "slot \<Rightarrow> bool option" where
  "opt_of (Slot x b opt) = opt"

text \<open>
  The loop \<open>for tagd in pattern\<close> of \<open>match_tags\<close>.  The path-query evaluator is a
  parameter: \<open>xp node q\<close> is \<open>node.xpath(q)\<close>.  \<open>nodelist.pop(0)\<close> on an empty list
  raises \<open>IndexError\<close>.  The result dict keeps insertion order.
\<close>

fun match_loop ::
  "(node \<Rightarrow> string \<Rightarrow> node list) \<Rightarrow> slot list \<Rightarrow> node list \<Rightarrow> (string \<times> node) list
     \<Rightarrow> pyerr + (string \<times> node) list option" where
  "match_loop xp [] nodelist result = Inr (Some result)"
| "match_loop xp (tagd # pattern) nodelist result =
     (case nodelist of
        [] \<Rightarrow> Inl (IndexError ''pop from empty list'')
      | node # nodelist' \<Rightarrow>
          (let matches = xp node (''self::'' @ e_of tagd)
           in if length matches > 1 then
                Inl (ValueError (''Pattern '' @ quoted (e_of tagd) @ '' returned >1 match''))
              else if length matches = 0 then Inr None
              else match_loop xp pattern nodelist'
                     (case bind_of tagd of
                        None \<Rightarrow> result
                      | Some b \<Rightarrow> AList.update b (hd matches) result)))"

definition match_tags ::
  "(node \<Rightarrow> string \<Rightarrow> node list) \<Rightarrow> node \<Rightarrow> slot list
     \<Rightarrow> pyerr + (string \<times> node) list option" where
  "match_tags xp startnode pattern =
     (let nodelist = collect startnode
      in if \<exists>x \<in> set nodelist. \<not> iselement x then Inr None
         else
           (let pattern_mandatory = filter (\<lambda>tagd. opt_of tagd \<noteq> Some True) pattern
            in if length pattern - length pattern_mandatory > 1 then
                 Inl (ValueError ''>1 optional element in pattern'')
               else if length pattern - length pattern_mandatory = 1 then
                 (if length pattern = length nodelist + 1 then
                    match_loop xp pattern_mandatory nodelist []
                  else if length pattern \<noteq> length nodelist then Inr None
                  else match_loop xp pattern nodelist [])
               else match_loop xp pattern nodelist []))"

section \<open>The libraries the script calls\<close>

text \<open>
  The HTML parser, \<open>urllib.parse\<close> and the Open Location Code library are not part
  of the script; their functions are parameters.  \<open>html_parse path\<close> is the root
  element of \<open>html.parse(path)\<close>; \<open>urlparse url\<close> gives the scheme and the path of
  \<open>urllib.parse.urlparse(url)\<close> (the argument is \<open>None\<close> when an \<open><a>\<close> has no
  \<open>href\<close>); \<open>olc_decode code\<close> is \<open>olc.decode(code).latlng()\<close>.
\<close>

record 'c library =
  html_parse :: "string \<Rightarrow> pyerr + node"
  urlparse :: "string option \<Rightarrow> pyerr + string \<times> string"
  unquote :: "string \<Rightarrow> string"
  olc_isValid :: "string \<Rightarrow> bool"
  olc_isFull :: "string \<Rightarrow> bool"
  olc_decode :: "string \<Rightarrow> 'c"

text \<open>
  The path queries of the form \<open>'self::' + e\<close> that the script's own patterns
  produce.  \<open>contains(text(), s)\<close> tests the first text child (the empty string when
  there is none); \<open>not(node())\<close> holds when the element has no child node of any
  kind.  Any other expression after \<open>self::\<close> is read as a tag name.
\<close>

fun first_text :: "node list \<Rightarrow> string" where
  "first_text [] = []"
| "first_text (Text s # cs) = s"
| "first_text (c # cs) = first_text cs"

definition xpath :: "node \<Rightarrow> string \<Rightarrow> node list" where
  "xpath node q =
     (if \<not> iselement node then []
      else if q = ''self::a[contains(text(),'Google Maps')]'' then
        (if tag node = ''a'' \<and> contains (first_text (child_nodes node)) ''Google Maps''
         then [node] else [])
      else if q = ''self::a[contains(text(),'Call')]'' then
        (if tag node = ''a'' \<and> contains (first_text (child_nodes node)) ''Call''
         then [node] else [])
      else if q = ''self::div[not(node())]'' then
        (if tag node = ''div'' \<and> child_nodes node = [] then [node] else [])
      else if startswith q ''self::'' \<and> tag node = drop 6 q then [node]
      else [])"

text \<open>\<open>listitem.xpath(".//a[contains(@href,'google.com/maps')]")\<close>.\<close>

definition maps_links :: "node \<Rightarrow> node list" where
  "maps_links listitem =
     filter (\<lambda>a. case get_attr a ''href'' of
                   None \<Rightarrow> False
                 | Some h \<Rightarrow> contains h ''google.com/maps'')
       (xpath_desc listitem ''a'')"

text \<open>\<open>d[key]\<close> where \<open>d\<close> is the value \<open>match_tags\<close> returned: \<open>None[key]\<close> raises
  \<open>TypeError\<close>, a missing key raises \<open>KeyError\<close>.\<close>

definition subscript :: "(string \<times> node) list option \<Rightarrow> string \<Rightarrow> pyerr + node" where
  "subscript d key =
     (case d of
        None \<Rightarrow> Inl (TypeError ''NoneType object is not subscriptable'')
      | Some kvs \<Rightarrow>
          (case map_of kvs key of
             None \<Rightarrow> Inl (KeyError key)
           | Some v \<Rightarrow> Inr v))"

text \<open>\<open>(x,) = xs\<close>.\<close>

definition unpack1 :: "'a list \<Rightarrow> pyerr + 'a" where
  "unpack1 xs =
     (case xs of
        [] \<Rightarrow> Inl (ValueError ''not enough values to unpack (expected 1, got 0)'')
      | [x] \<Rightarrow> Inr x
      | _ \<Rightarrow> Inl (ValueError ''too many values to unpack (expected 1)''))"


section \<open>place\_id\_from\_google\_maps\_url\<close>

text \<open>\<open>re.match('/maps/place/(.*)$', path)\<close> and its group 1: \<open>.\<close> does not match a
  newline, \<open>$\<close> matches at the end or before a final newline.\<close>

definition match_place :: "string \<Rightarrow> string option" where
  "match_place path =
     (if startswith path ''/maps/place/'' then
        (let r = drop 12 path
         in if CHR 0x0A \<notin> set r then Some r
            else if last r = CHR 0x0A \<and> CHR 0x0A \<notin> set (butlast r) then Some (butlast r)
            else None)
      else None)"

definition place_id_from_google_maps_url ::
  "'c library \<Rightarrow> string option \<Rightarrow> pyerr + string option" where
  "place_id_from_google_maps_url lib url =
     bindE (urlparse lib url) (\<lambda>(scheme, p).
       let path = rstrip (unquote lib p) in Inr (match_place path))"


section \<open>The main script\<close>

subsection \<open>Messages on the error stream\<close>

text \<open>One constructor for each \<open>print(..., file=sys.stderr)\<close> of the script, with
  the values it formats.\<close>

datatype diag =
    Usage
  | Couldnt_find_route_list
  | Found_list_but_no_route_points
  | Exception_text pyerr
  | Failed_to_fully_understand nat nat
  | Fallback_failed nat
  | Couldnt_parse_place_id nat "string option"
  | Route_incomplete nat nat
  | No_route_points_to_emit
  | Couldnt_find_route_description

subsection \<open>The patterns\<close>

definition pat_item :: "slot list" where
  "pat_item = [Slot ''div'' (Some ''div1'') None]"

definition pat_main :: "slot list" where
  "pat_main =
     [Slot ''div'' (Some ''name_olc_div'') None,
      Slot ''p'' (Some ''addr_p'') None,
      Slot ''div'' (Some ''portions_div'') None,
      Slot ''p'' (Some ''insns_p'') None,
      Slot ''p'' (Some ''allergies_p'') None,
      Slot ''p'' (Some ''nothome_p'') (Some True),
      Slot ''div'' (Some ''links_div'') None]"

definition pat_name :: "slot list" where
  "pat_name = [Slot ''p'' (Some ''fullname_p'') None, Slot ''p'' (Some ''olc_p'') None]"

definition pat_links :: "slot list" where
  "pat_links =
     [Slot ''a[contains(text(),'Google Maps')]'' (Some ''maplink_a'') None,
      Slot ''a[contains(text(),'Call')]'' (Some ''tellink_a'') (Some True),
      Slot ''div[not(node())]'' None None,
      Slot ''button'' None None]"

definition pat_route :: "slot list" where
  "pat_route =
     [Slot ''div'' (Some ''route_reset_div'') None,
      Slot ''div'' (Some ''dish_div'') (Some True),
      Slot ''ul'' None None,
      Slot ''div'' None None]"

subsection \<open>The strict extraction of one list item (the body of the \<open>try\<close>)\<close>

text \<open>The \<open>'Call'\<close> link: lines 350 to 366.\<close>

definition telephone ::
  "'c library \<Rightarrow> (string \<times> node) list option \<Rightarrow> pyerr + string option" where
  "telephone lib l3 =
     (case l3 of
        None \<Rightarrow> Inl (TypeError ''argument of type NoneType is not iterable'')
      | Some kvs \<Rightarrow>
          (case map_of kvs ''tellink_a'' of
             None \<Rightarrow> Inr None
           | Some a \<Rightarrow>
               (let tellink = get_attr a ''href''
                in bindE (urlparse lib tellink) (\<lambda>(scheme, p).
                     if scheme = ''tel'' then Inr (Some (unquote lib p))
                     else
                       (case tellink of
                          None \<Rightarrow> Inl (ValueError (''Expecting tel: URL, got ''
                                    @ quoted (fmt_s tellink) @ ''; assuming lost''))
                        | Some t \<Rightarrow>
                            if scheme = [] \<and> startswith t ''tel:''
                            then Inr (Some (unquote lib (drop 4 t)))
                            else Inl (ValueError (''Expecting tel: URL, got ''
                                    @ quoted (fmt_s tellink) @ ''; assuming lost'')))))))"

text \<open>
  Lines 275 to 336: the three levels of shape matching and the fields read from
  them, up to the map link.  The result is the waypoint name, the code text, the
  map URL and the match of the links block (the second \<open>l3\<close>).  The \<open>fields\<close>
  entries that the script stores and never reads (address, instructions,
  allergies, not-home text) raise nothing once their element is found, so only
  the lookups appear.
\<close>

definition portion_error :: "string \<Rightarrow> pyerr" where
  "portion_error portionstext =
     ValueError (''Didn't find 'portion' where expected (found '' @ quoted portionstext
                 @ ''); assuming lost'')"

definition strict_fields ::
  "'c library \<Rightarrow> node
     \<Rightarrow> pyerr + (string option \<times> string \<times> string option \<times> (string \<times> node) list option)" where
  "strict_fields lib listitem =
     bindE (match_tags xpath listitem pat_item) (\<lambda>l1.
     bindE (subscript l1 ''div1'') (\<lambda>div1.
     bindE (match_tags xpath div1 pat_main) (\<lambda>l2.
     bindE (subscript l2 ''name_olc_div'') (\<lambda>name_olc_div.
     bindE (match_tags xpath name_olc_div pat_name) (\<lambda>l3.
     bindE (subscript l3 ''fullname_p'') (\<lambda>fullname_p.
     bindE (firstnameish (strip (text_content fullname_p))) (\<lambda>ptname.
     bindE (subscript l3 ''olc_p'') (\<lambda>olc_p.
     bindE (subscript l2 ''addr_p'') (\<lambda>addr_p.
     bindE (subscript l2 ''portions_div'') (\<lambda>portions_div.
       if \<not> contains (text_content portions_div) ''portion''
       then Inl (portion_error (text_content portions_div))
       else
     bindE (subscript l2 ''insns_p'') (\<lambda>insns_p.
     bindE (subscript l2 ''allergies_p'') (\<lambda>allergies_p.
     bindE (subscript l2 ''links_div'') (\<lambda>links_div.
     bindE (match_tags xpath links_div pat_links) (\<lambda>l3'.
     bindE (subscript l3' ''maplink_a'') (\<lambda>maplink_a.
       Inr (ptname, strip (text_content olc_p), get_attr maplink_a ''href'',
            l3'))))))))))))))))"

definition mismatch_error :: "string \<Rightarrow> string option \<Rightarrow> pyerr" where
  "mismatch_error placeid placeid_from_url =
     ValueError (''Thought '' @ quoted placeid
                 @ '' was the plus code, but it doesn't match the map URL (''
                 @ quoted (fmt_s placeid_from_url) @ ''); assuming lost'')"

definition invalid_error :: "string \<Rightarrow> pyerr" where
  "invalid_error placeid =
     ValueError (''Thought '' @ quoted placeid
                 @ '' was the plus code, but it doesn't seem valid; assuming lost'')"

text \<open>Lines 337 to 366: the cross-check against the map URL, the validity check
  and the telephone link.\<close>

definition strict_checks ::
  "'c library \<Rightarrow> string option \<times> string \<times> string option \<times> (string \<times> node) list option
     \<Rightarrow> pyerr + (string option \<times> string)" where
  "strict_checks lib f =
     (case f of (ptname, placeid, mapurl, l3) \<Rightarrow>
        bindE (place_id_from_google_maps_url lib mapurl) (\<lambda>placeid_from_url.
          if Some placeid \<noteq> placeid_from_url
          then Inl (mismatch_error placeid placeid_from_url)
          else if \<not> olc_isValid lib placeid then Inl (invalid_error placeid)
          else bindE (telephone lib l3) (\<lambda>tel. Inr (ptname, placeid))))"

definition strict_extract :: "'c library \<Rightarrow> node \<Rightarrow> pyerr + (string option \<times> string)" where
  "strict_extract lib listitem = bindE (strict_fields lib listitem) (strict_checks lib)"

subsection \<open>Fallback and conversion of one list item\<close>

text \<open>\<open>except (ValueError, KeyError, TypeError)\<close>, and the inner
  \<open>except ValueError\<close>.\<close>

fun caught_strict :: "pyerr \<Rightarrow> bool" where
  "caught_strict (ValueError m) = True"
| "caught_strict (KeyError m) = True"
| "caught_strict (TypeError m) = True"
| "caught_strict _ = False"

fun is_ValueError :: "pyerr \<Rightarrow> bool" where
  "is_ValueError (ValueError m) = True"
| "is_ValueError _ = False"

text \<open>Lines 378 to 380.\<close>

definition fallback_scan :: "'c library \<Rightarrow> node \<Rightarrow> pyerr + string option" where
  "fallback_scan lib listitem =
     bindE (unpack1 (maps_links listitem)) (\<lambda>maplink_a.
       place_id_from_google_maps_url lib (get_attr maplink_a ''href''))"

text \<open>Lines 385 to 398.  \<open>if placeid\<close> is false for \<open>None\<close> and for the empty
  string.\<close>

definition to_waypoint ::
  "'c library \<Rightarrow> nat \<Rightarrow> string option \<Rightarrow> string option
     \<Rightarrow> diag list \<times> (string option \<times> 'c) option" where
  "to_waypoint lib index ptname placeid =
     (case placeid of
        None \<Rightarrow> ([Couldnt_parse_place_id (index + 1) placeid], None)
      | Some code \<Rightarrow>
          if code \<noteq> [] \<and> olc_isValid lib code \<and> olc_isFull lib code
          then ([], Some (ptname, olc_decode lib code))
          else ([Couldnt_parse_place_id (index + 1) placeid], None))"

text \<open>
  One turn of \<open>for (index, listitem) in enumerate(ulistitems)\<close>; \<open>n\<close> is
  \<open>len(ulistitems)\<close>.  The result is what the turn printed, and either the
  exception that leaves the loop or the waypoint appended (if any).
\<close>

definition fallback ::
  "'c library \<Rightarrow> nat \<Rightarrow> nat \<Rightarrow> node \<Rightarrow> pyerr
     \<Rightarrow> diag list \<times> (pyerr + (string option \<times> 'c) option)" where
  "fallback lib index n listitem err =
     (let d = [Exception_text err, Failed_to_fully_understand (index + 1) n];
          ptname = Some (''Delivery no '' @ str_of_nat (index + 1))
      in case fallback_scan lib listitem of
           Inr placeid \<Rightarrow>
             (case to_waypoint lib index ptname placeid of
                (d', w) \<Rightarrow> (d @ d', Inr w))
         | Inl err' \<Rightarrow>
             if is_ValueError err' then
               (case to_waypoint lib index ptname None of
                  (d', w) \<Rightarrow> (d @ [Fallback_failed (index + 1)] @ d', Inr w))
             else (d, Inl err'))"

definition process_item ::
  "'c library \<Rightarrow> nat \<Rightarrow> nat \<Rightarrow> node \<Rightarrow> diag list \<times> (pyerr + (string option \<times> 'c) option)" where
  "process_item lib index n listitem =
     (case strict_extract lib listitem of
        Inr (ptname, placeid) \<Rightarrow>
          (case to_waypoint lib index ptname (Some placeid) of (d, w) \<Rightarrow> (d, Inr w))
      | Inl err \<Rightarrow>
          if caught_strict err then fallback lib index n listitem err
          else ([], Inl err))"

fun process_items ::
  "'c library \<Rightarrow> nat \<Rightarrow> nat \<Rightarrow> node list \<Rightarrow> (string option \<times> 'c) list
     \<Rightarrow> diag list \<times> (pyerr + (string option \<times> 'c) list)" where
  "process_items lib n index [] routepoints = ([], Inr routepoints)"
| "process_items lib n index (listitem # rest) routepoints =
     (case process_item lib index n listitem of
        (d, Inl err) \<Rightarrow> (d, Inl err)
      | (d, Inr w) \<Rightarrow>
          (case process_items lib n (index + 1) rest
                  (routepoints @ (case w of None \<Rightarrow> [] | Some pt \<Rightarrow> [pt])) of
             (d', r) \<Rightarrow> (d @ d', r)))"

subsection \<open>Route description (lines 410 to 427)\<close>

definition unpack2 :: "'a list \<Rightarrow> pyerr + 'a" where
  "unpack2 xs =
     (case xs of
        [x, y] \<Rightarrow> Inr y
      | _ \<Rightarrow> Inl (ValueError ''wrong number of values to unpack (expected 2)''))"

definition description_try :: "node \<Rightarrow> pyerr + string" where
  "description_try main =
     bindE (unpack2 (xpath_child main ''div'')) (\<lambda>l1div2.
     bindE (match_tags xpath l1div2 pat_route) (\<lambda>l2.
     bindE (subscript l2 ''route_reset_div'') (\<lambda>route_reset_div.
     bindE (unpack1 (xpath_child route_reset_div ''div'')) (\<lambda>l3div1.
       Inr (join_sp (split (text_content l3div1)))))))"

text \<open>\<open>except (ValueError, KeyError)\<close>.\<close>

fun caught_description :: "pyerr \<Rightarrow> bool" where
  "caught_description (ValueError m) = True"
| "caught_description (KeyError m) = True"
| "caught_description _ = False"

definition route_description :: "node \<Rightarrow> diag list \<times> (pyerr + string option)" where
  "route_description main =
     (case description_try main of
        Inr s \<Rightarrow> ([], Inr (Some s))
      | Inl err \<Rightarrow>
          if caught_description err then ([Couldnt_find_route_description], Inr None)
          else ([], Inl err))"

subsection \<open>The whole run\<close>

text \<open>
  A run ends by \<open>sys.exit(status)\<close>, by an exception nobody catches, or by
  reaching the end, having written the GPX object (its description and its
  waypoints) to the file named.
\<close>

record 'c gpx =
  description :: "string option"
  waypoints :: "(string option \<times> 'c) list"

datatype 'c outcome =
    Exit nat
  | Uncaught pyerr
  | Written string "'c gpx"

text \<open>Lines 431 to 459.  \<open>sys.argv[2]\<close> raises \<open>IndexError\<close> when there are fewer
  than three entries.\<close>

definition write_gpx ::
  "string list \<Rightarrow> string option \<Rightarrow> (string option \<times> 'c) list \<Rightarrow> 'c outcome" where
  "write_gpx argv descr routepoints =
     (let gpx = \<lparr>description = (if descr \<noteq> None \<and> descr \<noteq> Some [] then descr else None),
                waypoints = routepoints\<rparr>
      in if 2 < length argv then Written (argv ! 2) gpx
         else Uncaught (IndexError ''list index out of range''))"

text \<open>Lines 400 to 459: the accounting after the loop, then the description and
  the output.\<close>

definition finish ::
  "string list \<Rightarrow> node \<Rightarrow> nat \<Rightarrow> (string option \<times> 'c) list \<Rightarrow> diag list \<times> 'c outcome" where
  "finish argv main n routepoints =
     (let d = (if length routepoints \<noteq> n
               then [Route_incomplete (length routepoints) n] else [])
      in if length routepoints = 0 then (d @ [No_route_points_to_emit], Exit 1)
         else
           (case route_description main of
              (d', Inl err) \<Rightarrow> (d @ d', Uncaught err)
            | (d', Inr descr) \<Rightarrow> (d @ d', write_gpx argv descr routepoints)))"

text \<open>Lines 241 to 398, from the parsed document to the end of the loop.\<close>

definition process_document ::
  "'c library \<Rightarrow> string list \<Rightarrow> node \<Rightarrow> diag list \<times> 'c outcome" where
  "process_document lib argv tree =
     (case unpack1 (filter (\<lambda>x. iselement x \<and> tag x = ''main'') (tree # descendants tree)) of
        Inl err \<Rightarrow> ([], Uncaught err)
      | Inr main \<Rightarrow>
          (case unpack1 (xpath_desc main ''ul'') of
             Inl err \<Rightarrow> ([Couldnt_find_route_list], Uncaught err)
           | Inr ulist \<Rightarrow>
               (let ulistitems = xpath_child ulist ''li'';
                    d0 = (if length ulistitems = 0
                          then [Found_list_but_no_route_points] else [])
                in case process_items lib (length ulistitems) 0 ulistitems [] of
                     (d1, Inl err) \<Rightarrow> (d0 @ d1, Uncaught err)
                   | (d1, Inr routepoints) \<Rightarrow>
                       (case finish argv main (length ulistitems) routepoints of
                          (d2, out) \<Rightarrow> (d0 @ d1 @ d2, out)))))"

definition run :: "'c library \<Rightarrow> string list \<Rightarrow> diag list \<times> 'c outcome" where
  "run lib argv =
     (if length argv < 2 then ([Usage], Exit 2)
      else
        (case html_parse lib (argv ! 1) of
           Inl err \<Rightarrow> ([], Uncaught err)
         | Inr tree \<Rightarrow> process_document lib argv tree))"


section \<open>Example documents and library values\<close>

text \<open>
  A list item shaped as the page lays one out (name and code, address, portions,
  instructions, allergies, links with no 'Call' link), with the full name, the
  code text, the text of the portions paragraph and the target of the map link
  left open.
\<close>

definition para :: "string \<Rightarrow> node" where
  "para s = Element ''p'' [] [Text s]"

definition name_block :: "string \<Rightarrow> string \<Rightarrow> node" where
  "name_block fullname code = Element ''div'' [] [para fullname, para code]"

definition portions_block :: "string \<Rightarrow> node" where
  "portions_block portions = Element ''div'' [] [Element ''span'' [] [Text ''2''], para portions]"

definition map_link :: "string \<Rightarrow> node" where
  "map_link href = Element ''a'' [(''href'', href)] [Text ''Google Maps'']"

definition links_block :: "string \<Rightarrow> node" where
  "links_block href =
     Element ''div'' []
       [map_link href, Element ''div'' [] [], Element ''button'' [] [Text ''Done'']]"

definition stop_body :: "string \<Rightarrow> string \<Rightarrow> string \<Rightarrow> string \<Rightarrow> node" where
  "stop_body fullname code portions href =
     Element ''div'' []
       [name_block fullname code,
        para ''1 High Street'',
        portions_block portions,
        para ''Ring the bell'',
        para ''No allergies'',
        links_block href]"

definition stop_item :: "string \<Rightarrow> string \<Rightarrow> string \<Rightarrow> string \<Rightarrow> node" where
  "stop_item fullname code portions href =
     Element ''li'' [] [stop_body fullname code portions href]"

definition good_item :: node where
  "good_item = stop_item ''Alex'' ''8FVC2222+22'' ''portions''
                 ''https://www.google.com/maps/place/8FVC2222+22''"

definition short_item :: node where
  "short_item = stop_item ''Alex'' ''2222+22'' ''portions''
                  ''https://www.google.com/maps/place/2222+22''"

definition mismatch_item :: node where
  "mismatch_item = stop_item ''Alex'' ''8FVC2222+22'' ''portions''
                     ''https://www.google.com/maps/place/8FVC9999+99''"

definition meals_item :: node where
  "meals_item = stop_item ''Alex'' ''8FVC2222+22'' ''meals''
                  ''https://www.google.com/maps/place/8FVC2222+22''"

definition invalid_item :: node where
  "invalid_item = stop_item ''Alex'' ''Lockon'' ''portions''
                    ''https://www.google.com/maps/place/Lockon''"

text \<open>A list item like \<open>meals_item\<close>, except that its name and code block holds the
  name only.\<close>

definition one_name_item :: node where
  "one_name_item =
     Element ''li'' []
       [Element ''div'' []
          [Element ''div'' [] [para ''Alex''],
           para ''1 High Street'',
           portions_block ''meals'',
           para ''Ring the bell'',
           para ''No allergies'',
           links_block ''https://www.google.com/maps/place/8FVC2222+22'']]"

text \<open>A route page as the script's comments describe it: under \<open><main>\<close> a header
  \<open><div>\<close> and a content \<open><div>\<close> holding the description block, the list and the
  "Back" block.\<close>

definition route_list :: "node list \<Rightarrow> node" where
  "route_list items = Element ''ul'' [] items"

definition route_main :: "node list \<Rightarrow> node" where
  "route_main items =
     Element ''main'' []
       [Element ''div'' [] [Text ''CCK Deliveries''],
        Element ''div'' []
          [Element ''div'' []
             [Element ''div'' [] [Text ''Deliveries for 04/09/2022  in Demo''],
              Element ''button'' [] [Text ''Reset'']],
           route_list items,
           Element ''div'' [] [Text ''Back'']]]"

definition route_page :: "node list \<Rightarrow> node" where
  "route_page items = Element ''html'' [] [Element ''body'' [] [route_main items]]"

text \<open>A page whose content \<open><div>\<close> holds the list and nothing else.\<close>

definition bare_page :: "node list \<Rightarrow> node" where
  "bare_page items =
     Element ''html'' []
       [Element ''body'' []
          [Element ''main'' []
             [Element ''div'' [] [Text ''CCK Deliveries''],
              Element ''div'' [] [route_list items]]]]"

text \<open>
  Library values for the examples: what \<open>urlparse\<close> and the location-code library
  return on the strings the examples use.  \<open>8FVC2222+22\<close> and \<open>8FVC9999+99\<close> are
  full codes, \<open>2222+22\<close> is a valid short code, \<open>Lockon\<close> is no code.  A decoded
  position is represented by the code it was decoded from.  The only file is
  \<open>in.html\<close>, which parses to the given tree.
\<close>

definition demo_urlparse :: "string option \<Rightarrow> pyerr + string \<times> string" where
  "demo_urlparse url =
     (if url = Some ''https://www.google.com/maps/place/8FVC2222+22''
      then Inr (''https'', ''/maps/place/8FVC2222+22'')
      else if url = Some ''https://www.google.com/maps/place/8FVC9999+99''
      then Inr (''https'', ''/maps/place/8FVC9999+99'')
      else if url = Some ''https://www.google.com/maps/place/2222+22''
      then Inr (''https'', ''/maps/place/2222+22'')
      else if url = Some ''https://www.google.com/maps/place/Lockon''
      then Inr (''https'', ''/maps/place/Lockon'')
      else Inr ([], []))"

definition demo_library :: "node \<Rightarrow> string library" where
  "demo_library tree =
     \<lparr>html_parse = (\<lambda>path. if path = ''in.html'' then Inr tree
                            else Inl (OSError ''No such file or directory'')),
      urlparse = demo_urlparse,
      unquote = (\<lambda>s. s),
      olc_isValid = (\<lambda>s. s = ''8FVC2222+22'' \<or> s = ''8FVC9999+99'' \<or> s = ''2222+22''),
      olc_isFull = (\<lambda>s. s = ''8FVC2222+22'' \<or> s = ''8FVC9999+99''),
      olc_decode = (\<lambda>s. s)\<rparr>"

text \<open>A command line with both paths.\<close>

definition argv3 :: "string list" where
  "argv3 = [''cck_gpx.py'', ''in.html'', ''out.gpx'']"


section \<open>Predicates used in the statements\<close>


text \<open>A child matches a slot when the slot's expression, restricted to the child,
  gives exactly one result; the mandatory slots of a pattern.\<close>

definition slot_matches :: "(node \<Rightarrow> string \<Rightarrow> node list) \<Rightarrow> slot \<Rightarrow> node \<Rightarrow> bool" where
  "slot_matches xp tagd node = (length (xp node (''self::'' @ e_of tagd)) = 1)"

definition mandatory :: "slot list \<Rightarrow> slot list" where
  "mandatory pattern = filter (\<lambda>tagd. opt_of tagd \<noteq> Some True) pattern"

text \<open>A parent has a non-blank text child.\<close>

definition has_nonblank_text_child :: "node \<Rightarrow> bool" where
  "has_nonblank_text_child n = (\<exists>c \<in> set (child_nodes n). nonblank_text c)"


section \<open>Theorems\<close>

subsection \<open>Splitting into words\<close>

lemma split_unfold:
  "split s = (if dropWhile py_isspace s = [] then []
     else takeWhile (\<lambda>c. \<not> py_isspace c) (dropWhile py_isspace s)
          # split (dropWhile (\<lambda>c. \<not> py_isspace c) (dropWhile py_isspace s)))"
  by (subst split.simps) (simp add: Let_def)

lemma split_tokens:
  "w \<in> set (split s) \<Longrightarrow> w \<noteq> [] \<and> (\<forall>c \<in> set w. \<not> py_isspace c)"
proof (induction s rule: split.induct)
  case (1 s)
  let ?s' = "dropWhile py_isspace s"
  show ?case
  proof (cases "?s' = []")
    case True
    with "1.prems" show ?thesis by (simp add: split_unfold [of s])
  next
    case False
    then have hd: "\<not> py_isspace (hd ?s')" by (rule hd_dropWhile)
    have "split s = takeWhile (\<lambda>c. \<not> py_isspace c) ?s'
            # split (dropWhile (\<lambda>c. \<not> py_isspace c) ?s')"
      using False by (subst split_unfold) simp
    with "1.prems" have
      "w = takeWhile (\<lambda>c. \<not> py_isspace c) ?s'
       \<or> w \<in> set (split (dropWhile (\<lambda>c. \<not> py_isspace c) ?s'))"
      by simp
    then show ?thesis
    proof
      assume w: "w = takeWhile (\<lambda>c. \<not> py_isspace c) ?s'"
      from False hd have "w \<noteq> []" unfolding w by (cases ?s') auto
      moreover have "\<forall>c \<in> set w. \<not> py_isspace c"
        unfolding w by (auto dest: set_takeWhileD)
      ultimately show ?thesis by simp
    next
      assume "w \<in> set (split (dropWhile (\<lambda>c. \<not> py_isspace c) ?s'))"
      with "1.IH" [OF refl False] show ?thesis by simp
    qed
  qed
qed








subsection \<open>firstnameish\<close>

lemma firstnameish_none: "split s = [] \<Longrightarrow> firstnameish s = Inr None"
  by (simp add: firstnameish_def)

lemma firstnameish_one: "split s = [w] \<Longrightarrow> firstnameish s = Inr (Some w)"
  by (simp add: firstnameish_def)

lemma firstnameish_two:
  assumes "split s = [a, b]"
  shows "firstnameish s =
           Inr (Some (if looks_initial a then a @ '' '' @ [hd b] @ ''.'' else a))"
proof -
  have "b \<in> set (split s)" using assms by simp
  then have "b \<noteq> []" by (auto dest: split_tokens)
  then obtain c cs where b: "b = c # cs" by (cases b) auto
  show ?thesis using assms b by (simp add: firstnameish_def bindE_def)
qed

lemma firstnameish_many:
  assumes "split s = a # b # c # rest"
  shows "firstnameish s = Inr (Some (if looks_initial a then a @ '' '' @ b else a))"
  using assms by (simp add: firstnameish_def bindE_def Let_def)




lemma firstnameish_total: "\<exists>r. firstnameish s = Inr r"
proof -
  consider "split s = []" | w where "split s = [w]" | a b where "split s = [a, b]"
    | a b c rest where "split s = a # b # c # rest"
    by (metis list.exhaust)
  then show ?thesis
    by cases (simp_all add: firstnameish_none firstnameish_one firstnameish_two
        firstnameish_many)
qed





subsection \<open>match\_tags\<close>

lemma nonblank_text_not_element: "nonblank_text c \<Longrightarrow> \<not> iselement c"
  by (cases c) auto

text \<open>
  C6.  For every parent node with at least one non-blank text child among its
  collected children, \<open>match_tags\<close> returns "no match" (\<open>None\<close>), whatever the
  pattern and whatever the path-query evaluator: the check comes before the
  pattern is looked at, so not even a pattern with several optional slots
  raises.
\<close>

theorem match_tags_text_child_no_match:
  "has_nonblank_text_child startnode \<Longrightarrow> match_tags xp startnode pattern = Inr None"
proof -
  assume "has_nonblank_text_child startnode"
  then obtain c where c: "c \<in> set (child_nodes startnode)" "nonblank_text c"
    by (auto simp: has_nonblank_text_child_def)
  then have "c \<in> set (collect startnode)" by (simp add: collect_def)
  moreover have "\<not> iselement c" using c(2) by (rule nonblank_text_not_element)
  ultimately have "\<exists>x \<in> set (collect startnode). \<not> iselement x" by blast
  then show ?thesis by (simp add: match_tags_def)
qed

theorem match_tags_text_child_no_match_witness:
  "has_nonblank_text_child (Element ''li'' [] [Element ''div'' [] [], Text ''hello''])
   \<and> match_tags (\<lambda>n q. [n, n]) (Element ''li'' [] [Element ''div'' [] [], Text ''hello''])
        [Slot ''div'' None (Some True), Slot ''p'' None (Some True)] = Inr None"
proof -
  have h: "has_nonblank_text_child
             (Element ''li'' [] [Element ''div'' [] [], Text ''hello''])"
    by (simp add: has_nonblank_text_child_def nonblank_def xml_space_def)
  show ?thesis using h match_tags_text_child_no_match [OF h] by simp
qed

text \<open>
  What \<open>match_tags\<close> does on a parent with no non-blank text child.  The loop
  succeeds exactly when there are at least as many children as slots and the
  first children match the slots one by one; it raises only for a slot that
  matches more than once, or when the children run out.  So with one optional
  slot the counts must agree (with or without that slot), and with none a
  prefix of the children is enough.
\<close>

lemma match_loop_Some_iff:
  "(\<exists>r. match_loop xp slots nodes res = Inr (Some r)) \<longleftrightarrow>
     length slots \<le> length nodes
     \<and> list_all2 (slot_matches xp) slots (take (length slots) nodes)"
proof (induction slots arbitrary: nodes res)
  case Nil
  then show ?case by simp
next
  case (Cons tagd slots)
  show ?case
  proof (cases nodes)
    case Nil
    then show ?thesis by simp
  next
    case (Cons node rest)
    let ?m = "xp node (''self::'' @ e_of tagd)"
    let ?res' = "case bind_of tagd of None \<Rightarrow> res | Some b \<Rightarrow> AList.update b (hd ?m) res"
    have step: "match_loop xp (tagd # slots) (node # rest) res =
                  (if length ?m > 1
                   then Inl (ValueError (''Pattern '' @ quoted (e_of tagd) @ '' returned >1 match''))
                   else if length ?m = 0 then Inr None
                   else match_loop xp slots rest ?res')"
      by (simp only: match_loop.simps list.case Let_def)
    have one: "slot_matches xp tagd node \<longleftrightarrow> \<not> length ?m > 1 \<and> \<not> length ?m = 0"
      unfolding slot_matches_def by arith
    show ?thesis
      unfolding Cons step using Cons.IH [of rest ?res'] one
      by (auto simp del: match_loop.simps)
  qed
qed

lemma match_loop_Inl:
  "match_loop xp slots nodes res = Inl err \<Longrightarrow>
     (\<exists>tagd \<in> set slots. \<exists>node \<in> set nodes.
         1 < length (xp node (''self::'' @ e_of tagd))
         \<and> err = ValueError (''Pattern '' @ quoted (e_of tagd) @ '' returned >1 match''))
     \<or> (length nodes < length slots \<and> err = IndexError ''pop from empty list'')"
proof (induction slots arbitrary: nodes res)
  case Nil
  then show ?case by simp
next
  case (Cons tagd slots)
  show ?case
  proof (cases nodes)
    case Nil
    with Cons.prems show ?thesis by simp
  next
    case (Cons node rest)
    let ?m = "xp node (''self::'' @ e_of tagd)"
    show ?thesis
    proof (cases "1 < length ?m")
      case True
      with Cons.prems Cons show ?thesis by (auto simp: Let_def)
    next
      case False
      with Cons.prems Cons obtain res' where "match_loop xp slots rest res' = Inl err"
        by (auto simp: Let_def split: if_splits)
      from Cons.IH [OF this] Cons show ?thesis by auto
    qed
  qed
qed

lemma collect_elements:
  "\<not> has_nonblank_text_child startnode \<Longrightarrow> \<not> (\<exists>x \<in> set (collect startnode). \<not> iselement x)"
  by (auto simp: has_nonblank_text_child_def collect_def)

lemma match_tags_one_optional:
  assumes "\<not> has_nonblank_text_child startnode"
    and "length pattern - length (mandatory pattern) = 1"
  shows "(\<exists>r. match_tags xp startnode pattern = Inr (Some r)) \<longleftrightarrow>
           (length (collect startnode) = length pattern
              \<and> list_all2 (slot_matches xp) pattern (collect startnode))
           \<or> (length (collect startnode) = length (mandatory pattern)
              \<and> list_all2 (slot_matches xp) (mandatory pattern) (collect startnode))"
proof -
  let ?n = "collect startnode"
  let ?pm = "mandatory pattern"
  have len: "length pattern = length ?pm + 1" using assms(2) by simp
  have el: "\<not> (\<exists>x \<in> set ?n. \<not> iselement x)" using assms(1) by (rule collect_elements)
  have mt: "match_tags xp startnode pattern =
              (if length pattern = length ?n + 1 then match_loop xp ?pm ?n []
               else if length pattern \<noteq> length ?n then Inr None
               else match_loop xp pattern ?n [])"
    using el assms(2) by (simp add: match_tags_def mandatory_def Let_def)
  show ?thesis
  proof (cases "length pattern = length ?n + 1")
    case True
    then have "length ?pm = length ?n" using len by simp
    then show ?thesis
      using True match_loop_Some_iff [of xp ?pm ?n "[]"]
      by (auto simp: mt dest: list_all2_lengthD)
  next
    case False
    show ?thesis
    proof (cases "length pattern = length ?n")
      case True
      then show ?thesis
        using False len match_loop_Some_iff [of xp pattern ?n "[]"]
        by (auto simp: mt dest: list_all2_lengthD)
    next
      case ne: False
      with False len show ?thesis by (auto simp: mt dest: list_all2_lengthD)
    qed
  qed
qed

lemma match_tags_no_optional:
  assumes "\<not> has_nonblank_text_child startnode"
    and "length pattern - length (mandatory pattern) = 0"
  shows "(\<exists>r. match_tags xp startnode pattern = Inr (Some r)) \<longleftrightarrow>
           length pattern \<le> length (collect startnode)
           \<and> list_all2 (slot_matches xp) pattern
                (take (length pattern) (collect startnode))"
proof -
  have el: "\<not> (\<exists>x \<in> set (collect startnode). \<not> iselement x)"
    using assms(1) by (rule collect_elements)
  have "match_tags xp startnode pattern = match_loop xp pattern (collect startnode) []"
    using el assms(2) by (simp add: match_tags_def mandatory_def Let_def)
  then show ?thesis using match_loop_Some_iff [of xp pattern "collect startnode" "[]"] by simp
qed

lemma match_tags_raises:
  assumes "match_tags xp startnode pattern = Inl err"
  shows "(1 < length pattern - length (mandatory pattern)
            \<and> err = ValueError ''>1 optional element in pattern'')
         \<or> (\<exists>tagd \<in> set pattern. \<exists>node \<in> set (collect startnode).
               1 < length (xp node (''self::'' @ e_of tagd))
               \<and> err = ValueError (''Pattern '' @ quoted (e_of tagd) @ '' returned >1 match''))
         \<or> (length pattern - length (mandatory pattern) = 0
               \<and> length (collect startnode) < length pattern
               \<and> err = IndexError ''pop from empty list'')"
proof -
  let ?n = "collect startnode"
  let ?pm = "mandatory pattern"
  consider (many) "1 < length pattern - length ?pm"
    | (one) "length pattern - length ?pm = 1" | (none) "length pattern - length ?pm = 0"
    by linarith
  then show ?thesis
  proof cases
    case many
    with assms show ?thesis
      by (auto simp: match_tags_def mandatory_def Let_def split: if_splits)
  next
    case one
    then have len: "length pattern = length ?pm + 1" by simp
    from assms one have
      "(length pattern = length ?n + 1 \<and> match_loop xp ?pm ?n [] = Inl err)
       \<or> (length pattern = length ?n \<and> match_loop xp pattern ?n [] = Inl err)"
      by (auto simp: match_tags_def mandatory_def Let_def split: if_splits)
    then show ?thesis
    proof
      assume a: "length pattern = length ?n + 1 \<and> match_loop xp ?pm ?n [] = Inl err"
      then have "\<not> length ?n < length ?pm" using len by simp
      with a match_loop_Inl [of xp ?pm ?n "[]" err] show ?thesis
        by (auto simp: mandatory_def)
    next
      assume a: "length pattern = length ?n \<and> match_loop xp pattern ?n [] = Inl err"
      with match_loop_Inl [of xp pattern ?n "[]" err] show ?thesis by auto
    qed
  next
    case none
    with assms have "match_loop xp pattern ?n [] = Inl err"
      by (auto simp: match_tags_def mandatory_def Let_def split: if_splits)
    with match_loop_Inl [of xp pattern ?n "[]" err] none show ?thesis by auto
  qed
qed

text \<open>
  C1 (the code departs from the claim).  The child count is compared with the slot
  count only when the pattern has an optional slot.  With none, the loop consumes
  one child per slot and ignores the rest: a parent with two element children
  matches the one-slot pattern of the list item, although the counts differ.
\<close>

theorem match_tags_extra_children_accepted:
  "length (collect (Element ''li'' [] [Element ''div'' [] [], Element ''hr'' [] []])) = 2
   \<and> length pat_item = 1
   \<and> match_tags xpath (Element ''li'' [] [Element ''div'' [] [], Element ''hr'' [] []]) pat_item
       = Inr (Some [(''div1'', Element ''div'' [] [])])"
proof -
  have a: "length (collect (Element ''li'' [] [Element ''div'' [] [], Element ''hr'' [] []])) = 2"
    by (simp add: collect_def)
  have b: "length pat_item = 1" by (simp add: pat_item_def)
  have c: "match_tags xpath (Element ''li'' [] [Element ''div'' [] [], Element ''hr'' [] []])
             pat_item = Inr (Some [(''div1'', Element ''div'' [] [])])"
    by code_simp
  from a b c show ?thesis by simp
qed

text \<open>
  C2 (the code departs from the claim).  With no optional slot and fewer children
  than slots, \<open>nodelist.pop(0)\<close> raises \<open>IndexError\<close>: a parent with no child and
  any one-slot pattern, whatever the path-query evaluator.  This is a mismatch of
  the children, not an error in the pattern.
\<close>

theorem match_tags_too_few_children_raises:
  "match_tags xp (Element ''li'' [] []) [Slot e b None]
     = Inl (IndexError ''pop from empty list'')"
  by (simp add: match_tags_def collect_def)

subsection \<open>The route-point loop\<close>

lemma map_of_update_keeps:
  "map_of al k \<noteq> None \<Longrightarrow> map_of (AList.update k' v al) k \<noteq> None"
  by (simp add: update_conv')

lemma match_loop_keys:
  "match_loop xp pattern nodelist result = Inr (Some r) \<Longrightarrow>
     (\<forall>k. map_of result k \<noteq> None \<longrightarrow> map_of r k \<noteq> None)
     \<and> (\<forall>s \<in> set pattern. \<forall>k. bind_of s = Some k \<longrightarrow> map_of r k \<noteq> None)"
proof (induction pattern arbitrary: nodelist result)
  case Nil
  then show ?case by simp
next
  case (Cons tagd pattern)
  from Cons.prems obtain node rest where nl: "nodelist = node # rest"
    by (cases nodelist) auto
  from Cons.prems nl have
    "\<exists>v. match_loop xp pattern rest
           (case bind_of tagd of None \<Rightarrow> result | Some b \<Rightarrow> AList.update b v result)
         = Inr (Some r)"
    by (auto simp: Let_def split: if_splits)
  then obtain v where rec:
    "match_loop xp pattern rest
       (case bind_of tagd of None \<Rightarrow> result | Some b \<Rightarrow> AList.update b v result)
     = Inr (Some r)" ..
  let ?result' = "case bind_of tagd of None \<Rightarrow> result | Some b \<Rightarrow> AList.update b v result"
  note ih = Cons.IH [OF rec]
  have keep: "\<forall>k. map_of result k \<noteq> None \<longrightarrow> map_of ?result' k \<noteq> None"
    by (cases "bind_of tagd") (simp_all add: update_conv')
  have new: "\<forall>k. bind_of tagd = Some k \<longrightarrow> map_of ?result' k \<noteq> None"
    by (cases "bind_of tagd") (simp_all add: update_conv')
  from ih keep new show ?case by auto
qed

lemma match_tags_keys:
  assumes "match_tags xp startnode pattern = Inr (Some r)"
    and "s \<in> set pattern" and "opt_of s \<noteq> Some True" and "bind_of s = Some k"
  shows "\<exists>v. map_of r k = Some v"
proof -
  let ?pm = "filter (\<lambda>tagd. opt_of tagd \<noteq> Some True) pattern"
  from assms(1) have
    "match_loop xp ?pm (collect startnode) [] = Inr (Some r)
     \<or> match_loop xp pattern (collect startnode) [] = Inr (Some r)"
    by (simp add: match_tags_def Let_def split: if_splits)
  moreover have "s \<in> set ?pm" using assms(2,3) by simp
  ultimately have "map_of r k \<noteq> None"
    using assms(2,4) match_loop_keys [of xp ?pm "collect startnode" "[]" r]
      match_loop_keys [of xp pattern "collect startnode" "[]" r]
    by blast
  then show ?thesis by auto
qed

lemma subscript_Some: "map_of kvs k = Some v \<Longrightarrow> subscript (Some kvs) k = Inr v"
  by (simp add: subscript_def)

lemma bindE_Inr: "bindE (Inr x) f = f x"
  by (simp add: bindE_def)

lemma bindE_Inl: "bindE (Inl e) f = Inl e"
  by (simp add: bindE_def)


text \<open>
  The portions check, when it is reached: if the three shape matches that precede
  it succeed (the list item, its wrapper \<open><div>\<close>, and the name and code block) and
  the text content of the portions block does not contain \<open>portion\<close>, the strict
  extraction raises the \<open>ValueError\<close> of line 315, which the handler catches, and
  the item is processed by the fallback path with that exception.
\<close>

theorem portion_check_falls_back:
  assumes "match_tags xpath listitem pat_item = Inr (Some l1)"
    and "map_of l1 ''div1'' = Some div1"
    and "match_tags xpath div1 pat_main = Inr (Some l2)"
    and "map_of l2 ''name_olc_div'' = Some name_olc_div"
    and "match_tags xpath name_olc_div pat_name = Inr (Some l3)"
    and "map_of l2 ''portions_div'' = Some portions_div"
    and "\<not> contains (text_content portions_div) ''portion''"
  shows "strict_extract lib listitem = Inl (portion_error (text_content portions_div))
         \<and> process_item lib index n listitem
             = fallback lib index n listitem (portion_error (text_content portions_div))"
proof -
  obtain fullname_p where fp: "map_of l3 ''fullname_p'' = Some fullname_p"
    using match_tags_keys [OF assms(5), of "Slot ''p'' (Some ''fullname_p'') None"]
    by (auto simp: pat_name_def)
  obtain olc_p where op: "map_of l3 ''olc_p'' = Some olc_p"
    using match_tags_keys [OF assms(5), of "Slot ''p'' (Some ''olc_p'') None"]
    by (auto simp: pat_name_def)
  obtain addr_p where ap: "map_of l2 ''addr_p'' = Some addr_p"
    using match_tags_keys [OF assms(3), of "Slot ''p'' (Some ''addr_p'') None"]
    by (auto simp: pat_main_def)
  obtain ptname where pn: "firstnameish (strip (text_content fullname_p)) = Inr ptname"
    using firstnameish_total by blast
  have "strict_fields lib listitem = Inl (portion_error (text_content portions_div))"
    unfolding strict_fields_def
    by (simp add: assms subscript_Some bindE_Inr fp op ap pn)
  then have s: "strict_extract lib listitem = Inl (portion_error (text_content portions_div))"
    by (simp add: strict_extract_def bindE_Inl)
  then show ?thesis
    by (simp add: process_item_def portion_error_def)
qed

text \<open>
  C3 (as amended).  When the strict path reaches the validity check (the fields
  were read and the code text equals the place identifier of the map URL): an
  invalid code raises the \<open>ValueError\<close> of line 346 and the item is processed by
  the fallback path; a valid but short code does not trigger the fallback: when
  the telephone link raises nothing, the strict extraction succeeds, and the
  conversion step skips the item with its diagnostic and no waypoint.
\<close>

theorem code_validity_check:
  assumes "strict_fields lib listitem = Inr (ptname, placeid, mapurl, l3)"
    and "place_id_from_google_maps_url lib mapurl = Inr (Some placeid)"
  shows "(\<not> olc_isValid lib placeid \<longrightarrow>
            strict_extract lib listitem = Inl (invalid_error placeid)
            \<and> process_item lib index n listitem
                = fallback lib index n listitem (invalid_error placeid))
         \<and> (olc_isValid lib placeid \<and> \<not> olc_isFull lib placeid
              \<and> (\<exists>tel. telephone lib l3 = Inr tel) \<longrightarrow>
            strict_extract lib listitem = Inr (ptname, placeid)
            \<and> process_item lib index n listitem
                = ([Couldnt_parse_place_id (index + 1) (Some placeid)], Inr None))"
proof -
  have c: "strict_extract lib listitem =
             (if \<not> olc_isValid lib placeid then Inl (invalid_error placeid)
              else bindE (telephone lib l3) (\<lambda>tel. Inr (ptname, placeid)))"
    using assms by (simp add: strict_extract_def strict_checks_def bindE_Inr)
  show ?thesis
    by (auto simp: c process_item_def invalid_error_def bindE_Inr to_waypoint_def)
qed

lemma process_item_diags:
  "process_item lib index n listitem = (d, r) \<Longrightarrow> No_route_points_to_emit \<notin> set d"
  by (auto simp: process_item_def fallback_def to_waypoint_def Let_def
      split: sum.splits prod.splits if_splits option.splits)

lemma process_items_length:
  "process_items lib n index items routepoints = (d, Inr r) \<Longrightarrow>
     length r \<le> length routepoints + length items"
proof (induction items arbitrary: index routepoints d)
  case Nil
  then show ?case by simp
next
  case (Cons listitem rest)
  obtain d0 w where pi: "process_item lib index n listitem = (d0, Inr w)"
    using Cons.prems by (auto split: prod.splits sum.splits)
  let ?rp = "routepoints @ (case w of None \<Rightarrow> [] | Some pt \<Rightarrow> [pt])"
  obtain d1 where "process_items lib n (index + 1) rest ?rp = (d1, Inr r)"
    using Cons.prems pi by (auto split: prod.splits)
  from Cons.IH [OF this] have "length r \<le> length ?rp + length rest" .
  moreover have "length ?rp \<le> length routepoints + 1" by (cases w) auto
  ultimately show ?case by simp
qed

text \<open>
  The fallback path: every \<open>ValueError\<close>, \<open>KeyError\<close> or \<open>TypeError\<close> of the strict
  extraction leads to it; it prints the exception and the position of the item,
  and a waypoint it produces is named \<open>Delivery no N\<close>.
\<close>

lemma caught_failure_falls_back:
  assumes "strict_extract lib listitem = Inl err" and "caught_strict err"
  shows "process_item lib index n listitem = fallback lib index n listitem err"
  using assms by (simp add: process_item_def)

lemma fallback_diagnostics:
  "\<exists>d r. fallback lib index n listitem err
           = (Exception_text err # Failed_to_fully_understand (index + 1) n # d, r)"
  by (auto simp: fallback_def Let_def split: sum.splits prod.splits)

lemma fallback_name:
  "fallback lib index n listitem err = (d, Inr (Some (name, pos))) \<Longrightarrow>
     name = Some (''Delivery no '' @ str_of_nat (index + 1))"
  by (auto simp: fallback_def to_waypoint_def Let_def
      split: sum.splits prod.splits if_splits option.splits)

text \<open>Code text \<open>8FVC2222+22\<close> against a map link to \<open>8FVC9999+99\<close>: the exception
  cites both, and the waypoint comes from the link.\<close>

lemma scenario_B:
  "process_item (demo_library (route_page [mismatch_item])) 0 1 mismatch_item
     = ([Exception_text (mismatch_error ''8FVC2222+22'' (Some ''8FVC9999+99'')),
         Failed_to_fully_understand 1 1],
        Inr (Some (Some ''Delivery no 1'', ''8FVC9999+99'')))"
  by code_simp

text \<open>
  An item whose shape matches fully and whose portions block reads \<open>2meals\<close>: the
  fallback names the stop and recovers the code from the map link.
\<close>

theorem portion_check_falls_back_witness:
  "\<not> contains (text_content (portions_block ''meals'')) ''portion''
   \<and> strict_extract (demo_library (route_page [meals_item])) meals_item
       = Inl (portion_error ''2meals'')
   \<and> process_item (demo_library (route_page [meals_item])) 0 1 meals_item
       = ([Exception_text (portion_error ''2meals''), Failed_to_fully_understand 1 1],
          Inr (Some (Some ''Delivery no 1'', ''8FVC2222+22'')))"
proof -
  let ?url = "''https://www.google.com/maps/place/8FVC2222+22''"
  let ?body = "stop_body ''Alex'' ''8FVC2222+22'' ''meals'' ?url"
  let ?l2 = "[(''name_olc_div'', name_block ''Alex'' ''8FVC2222+22''),
              (''addr_p'', para ''1 High Street''),
              (''portions_div'', portions_block ''meals''),
              (''insns_p'', para ''Ring the bell''),
              (''allergies_p'', para ''No allergies''),
              (''links_div'', links_block ?url)]"
  have h1: "match_tags xpath meals_item pat_item = Inr (Some [(''div1'', ?body)])"
    by code_simp
  have h2: "map_of [(''div1'', ?body)] ''div1'' = Some ?body" by simp
  have h3: "match_tags xpath ?body pat_main = Inr (Some ?l2)" by code_simp
  have h4: "map_of ?l2 ''name_olc_div'' = Some (name_block ''Alex'' ''8FVC2222+22'')"
    by simp
  have h5: "match_tags xpath (name_block ''Alex'' ''8FVC2222+22'') pat_name
              = Inr (Some [(''fullname_p'', para ''Alex''), (''olc_p'', para ''8FVC2222+22'')])"
    by code_simp
  have h6: "map_of ?l2 ''portions_div'' = Some (portions_block ''meals'')" by simp
  have h7: "\<not> contains (text_content (portions_block ''meals'')) ''portion''"
    by code_simp
  have t: "text_content (portions_block ''meals'') = ''2meals''" by code_simp
  have f: "fallback (demo_library (route_page [meals_item])) 0 1 meals_item
             (portion_error ''2meals'')
           = ([Exception_text (portion_error ''2meals''), Failed_to_fully_understand 1 1],
              Inr (Some (Some ''Delivery no 1'', ''8FVC2222+22'')))"
    by code_simp
  show ?thesis
    using portion_check_falls_back [OF h1 h2 h3 h4 h5 h6 h7,
        of "demo_library (route_page [meals_item])" 0 1] h7 f
    by (simp add: t)
qed

text \<open>
  An item whose code text and map link both read \<open>Lockon\<close> (no valid code) falls
  back; an item whose code text and map link both read \<open>2222+22\<close> (valid, short)
  does not.
\<close>

theorem code_validity_check_witness:
  "\<not> olc_isValid (demo_library (route_page [invalid_item])) ''Lockon''
   \<and> strict_extract (demo_library (route_page [invalid_item])) invalid_item
       = Inl (invalid_error ''Lockon'')
   \<and> process_item (demo_library (route_page [invalid_item])) 0 1 invalid_item
       = ([Exception_text (invalid_error ''Lockon''), Failed_to_fully_understand 1 1,
           Couldnt_parse_place_id 1 (Some ''Lockon'')], Inr None)
   \<and> olc_isValid (demo_library (route_page [short_item])) ''2222+22''
   \<and> \<not> olc_isFull (demo_library (route_page [short_item])) ''2222+22''
   \<and> strict_extract (demo_library (route_page [short_item])) short_item
       = Inr (Some ''Alex'', ''2222+22'')
   \<and> process_item (demo_library (route_page [short_item])) 0 1 short_item
       = ([Couldnt_parse_place_id 1 (Some ''2222+22'')], Inr None)"
proof -
  let ?Li = "demo_library (route_page [invalid_item])"
  let ?Ls = "demo_library (route_page [short_item])"
  let ?ui = "''https://www.google.com/maps/place/Lockon''"
  let ?us = "''https://www.google.com/maps/place/2222+22''"
  have fi: "strict_fields ?Li invalid_item
              = Inr (Some ''Alex'', ''Lockon'', Some ?ui, Some [(''maplink_a'', map_link ?ui)])"
    by code_simp
  have pi: "place_id_from_google_maps_url ?Li (Some ?ui) = Inr (Some ''Lockon'')"
    by code_simp
  have vi: "\<not> olc_isValid ?Li ''Lockon''" by code_simp
  have bi: "fallback ?Li 0 1 invalid_item (invalid_error ''Lockon'')
              = ([Exception_text (invalid_error ''Lockon''), Failed_to_fully_understand 1 1,
                  Couldnt_parse_place_id 1 (Some ''Lockon'')], Inr None)"
    by code_simp
  have fs: "strict_fields ?Ls short_item
              = Inr (Some ''Alex'', ''2222+22'', Some ?us, Some [(''maplink_a'', map_link ?us)])"
    by code_simp
  have ps: "place_id_from_google_maps_url ?Ls (Some ?us) = Inr (Some ''2222+22'')"
    by code_simp
  have vs: "olc_isValid ?Ls ''2222+22''" by code_simp
  have ns: "\<not> olc_isFull ?Ls ''2222+22''" by code_simp
  have ts: "telephone ?Ls (Some [(''maplink_a'', map_link ?us)]) = Inr None"
    by code_simp
  show ?thesis
    using code_validity_check [OF fi pi, of 0 1] code_validity_check [OF fs ps, of 0 1]
      vi vs ns bi
    by (simp add: ts)
qed

text \<open>
  C3 as stated fails for a short code: the strict extraction of such an item
  succeeds, nothing of the fallback path is printed, and the item is dropped.
\<close>

theorem short_code_no_fallback_counterexample:
  "olc_isValid (demo_library (route_page [short_item])) ''2222+22''
   \<and> \<not> olc_isFull (demo_library (route_page [short_item])) ''2222+22''
   \<and> strict_extract (demo_library (route_page [short_item])) short_item
       = Inr (Some ''Alex'', ''2222+22'')
   \<and> process_item (demo_library (route_page [short_item])) 0 1 short_item
       = ([Couldnt_parse_place_id 1 (Some ''2222+22'')], Inr None)
   \<and> Failed_to_fully_understand 1 1
       \<notin> set (fst (process_item (demo_library (route_page [short_item])) 0 1 short_item))"
proof -
  let ?Ls = "demo_library (route_page [short_item])"
  have vs: "olc_isValid ?Ls ''2222+22''" by code_simp
  have ns: "\<not> olc_isFull ?Ls ''2222+22''" by code_simp
  have se: "strict_extract ?Ls short_item = Inr (Some ''Alex'', ''2222+22'')" by code_simp
  have pr: "process_item ?Ls 0 1 short_item
              = ([Couldnt_parse_place_id 1 (Some ''2222+22'')], Inr None)"
    by code_simp
  show ?thesis using vs ns se pr by simp
qed

subsection \<open>After the loop\<close>

lemma process_items_diags:
  "process_items lib n index items routepoints = (d, r) \<Longrightarrow>
     No_route_points_to_emit \<notin> set d"
proof (induction items arbitrary: index routepoints d r)
  case Nil
  then show ?case by simp
next
  case (Cons listitem rest)
  obtain d0 r0 where pi: "process_item lib index n listitem = (d0, r0)"
    by (cases "process_item lib index n listitem") auto
  then have d0: "No_route_points_to_emit \<notin> set d0" by (rule process_item_diags)
  show ?case
  proof (cases r0)
    case (Inl err)
    with Cons.prems pi d0 show ?thesis by simp
  next
    case (Inr w)
    let ?rp = "routepoints @ (case w of None \<Rightarrow> [] | Some pt \<Rightarrow> [pt])"
    obtain d1 r1 where rec: "process_items lib n (index + 1) rest ?rp = (d1, r1)"
      by (cases "process_items lib n (index + 1) rest ?rp") auto
    from Cons.IH [OF rec] have "No_route_points_to_emit \<notin> set d1" .
    moreover from Cons.prems pi Inr rec have "d = d0 @ d1" by simp
    ultimately show ?thesis using d0 by simp
  qed
qed

lemma route_description_diags:
  "route_description main = (d, r) \<Longrightarrow> No_route_points_to_emit \<notin> set d"
  by (auto simp: route_description_def split: sum.splits if_splits)

lemma write_gpx_not_exit: "write_gpx argv descr routepoints \<noteq> Exit k"
  by (simp add: write_gpx_def Let_def)

text \<open>
  Lines 400 to 405, for a run that reaches the end of the loop over the list items
  (two command-line entries at least, a document with exactly one \<open><main>\<close> and
  exactly one \<open><ul>\<close> below it, no exception escaping the loop): if fewer waypoints
  were collected than there were items, the "route incomplete" diagnostic is
  printed with both counts; if no waypoint was collected, the "no route points"
  diagnostic is printed and the run ends with exit status 1; with no list item at
  all the run prints exactly the empty-list diagnostic and the "no route points"
  diagnostic and ends with exit status 1; and with at least one waypoint the run
  prints no "no route points" diagnostic, calls \<open>sys.exit\<close> nowhere, and goes on
  to the route description and then to the output, either of which may still end
  it with an exception.
\<close>

theorem accounting_after_loop:
  assumes "2 \<le> length argv"
    and "html_parse lib (argv ! 1) = Inr tree"
    and "unpack1 (filter (\<lambda>x. iselement x \<and> tag x = ''main'') (tree # descendants tree))
           = Inr main"
    and "unpack1 (xpath_desc main ''ul'') = Inr ulist"
    and "xpath_child ulist ''li'' = ulistitems"
    and "process_items lib (length ulistitems) 0 ulistitems [] = (d1, Inr routepoints)"
  shows "(length routepoints < length ulistitems \<longrightarrow>
            Route_incomplete (length routepoints) (length ulistitems)
              \<in> set (fst (run lib argv)))
         \<and> (routepoints = [] \<longrightarrow>
            snd (run lib argv) = Exit 1
            \<and> No_route_points_to_emit \<in> set (fst (run lib argv)))
         \<and> (ulistitems = [] \<longrightarrow>
            run lib argv
              = ([Found_list_but_no_route_points, No_route_points_to_emit], Exit 1))
         \<and> (routepoints \<noteq> [] \<longrightarrow>
            No_route_points_to_emit \<notin> set (fst (run lib argv))
            \<and> snd (run lib argv)
                = (case snd (route_description main) of
                     Inl err \<Rightarrow> Uncaught err
                   | Inr descr \<Rightarrow> write_gpx argv descr routepoints)
            \<and> (\<forall>k. snd (run lib argv) \<noteq> Exit k))"
proof -
  let ?n = "length ulistitems"
  let ?d0 = "if length ulistitems = 0 then [Found_list_but_no_route_points] else []"
  let ?F = "finish argv main ?n routepoints"
  obtain d' r' where rd: "route_description main = (d', r')"
    by (cases "route_description main") auto
  have run_eq: "run lib argv = (?d0 @ d1 @ fst ?F, snd ?F)"
    using assms by (simp add: run_def process_document_def Let_def split: prod.splits)
  have le: "length routepoints \<le> ?n"
    using process_items_length [OF assms(6)] by simp
  have c1: "length routepoints < ?n \<longrightarrow>
              Route_incomplete (length routepoints) ?n \<in> set (fst (run lib argv))"
    by (auto simp: run_eq finish_def Let_def split: prod.splits sum.splits)
  have c2: "routepoints = [] \<longrightarrow>
              snd (run lib argv) = Exit 1
              \<and> No_route_points_to_emit \<in> set (fst (run lib argv))"
    by (simp add: run_eq finish_def Let_def)
  have c3: "ulistitems = [] \<longrightarrow>
              run lib argv
                = ([Found_list_but_no_route_points, No_route_points_to_emit], Exit 1)"
  proof
    assume e: "ulistitems = []"
    with assms(6) have "d1 = []" "routepoints = []" by simp_all
    with e show "run lib argv
                   = ([Found_list_but_no_route_points, No_route_points_to_emit], Exit 1)"
      by (simp add: run_eq finish_def)
  qed
  have c4: "routepoints \<noteq> [] \<longrightarrow>
              No_route_points_to_emit \<notin> set (fst (run lib argv))
              \<and> snd (run lib argv)
                  = (case snd (route_description main) of
                       Inl err \<Rightarrow> Uncaught err
                     | Inr descr \<Rightarrow> write_gpx argv descr routepoints)
              \<and> (\<forall>k. snd (run lib argv) \<noteq> Exit k)"
  proof
    assume ne: "routepoints \<noteq> []"
    have F: "?F = ((if length routepoints \<noteq> ?n
                    then [Route_incomplete (length routepoints) ?n] else []) @ d',
                   case r' of Inl err \<Rightarrow> Uncaught err
                   | Inr descr \<Rightarrow> write_gpx argv descr routepoints)"
      using ne rd by (simp add: finish_def Let_def split: sum.splits)
    have a: "No_route_points_to_emit \<notin> set (fst (run lib argv))"
      using process_items_diags [OF assms(6)] route_description_diags [OF rd]
      by (simp add: run_eq F)
    have b: "snd (run lib argv)
               = (case snd (route_description main) of
                    Inl err \<Rightarrow> Uncaught err
                  | Inr descr \<Rightarrow> write_gpx argv descr routepoints)"
      by (simp add: run_eq F rd)
    have c: "\<forall>k. snd (run lib argv) \<noteq> Exit k"
      by (simp add: b rd write_gpx_not_exit split: sum.splits)
    from a b c show "No_route_points_to_emit \<notin> set (fst (run lib argv))
              \<and> snd (run lib argv)
                  = (case snd (route_description main) of
                       Inl err \<Rightarrow> Uncaught err
                     | Inr descr \<Rightarrow> write_gpx argv descr routepoints)
              \<and> (\<forall>k. snd (run lib argv) \<noteq> Exit k)"
      by blast
  qed
  from c1 c2 c3 c4 show ?thesis by blast
qed

theorem accounting_after_loop_witness:
  "Route_incomplete 1 2
     \<in> set (fst (run (demo_library (route_page [good_item, short_item])) argv3))
   \<and> snd (run (demo_library (route_page [good_item, short_item])) argv3)
       = Written ''out.gpx''
           \<lparr>description = Some ''Deliveries for 04/09/2022 in Demo'',
            waypoints = [(Some ''Alex'', ''8FVC2222+22'')]\<rparr>
   \<and> run (demo_library (route_page [])) argv3
       = ([Found_list_but_no_route_points, No_route_points_to_emit], Exit 1)
   \<and> snd (run (demo_library (route_page [short_item])) argv3) = Exit 1
   \<and> Route_incomplete 0 1 \<in> set (fst (run (demo_library (route_page [short_item])) argv3))
   \<and> No_route_points_to_emit
       \<in> set (fst (run (demo_library (route_page [short_item])) argv3))"
proof -
  let ?two = "[good_item, short_item]"
  have a: "2 \<le> length argv3" by (simp add: argv3_def)
  have p: "html_parse (demo_library t) (argv3 ! 1) = Inr t" for t
    by (simp add: demo_library_def argv3_def)
  have m2: "unpack1 (filter (\<lambda>x. iselement x \<and> tag x = ''main'')
                       (route_page ?two # descendants (route_page ?two)))
              = Inr (route_main ?two)"
    by code_simp
  have u2: "unpack1 (xpath_desc (route_main ?two) ''ul'') = Inr (route_list ?two)"
    by code_simp
  have i2: "xpath_child (route_list ?two) ''li'' = ?two"
    by code_simp
  have l2: "process_items (demo_library (route_page ?two)) (length ?two) 0 ?two []
              = ([Couldnt_parse_place_id 2 (Some ''2222+22'')],
                 Inr [(Some ''Alex'', ''8FVC2222+22'')])"
    by code_simp
  have d2: "route_description (route_main ?two)
              = ([], Inr (Some ''Deliveries for 04/09/2022 in Demo''))"
    by code_simp
  have m0: "unpack1 (filter (\<lambda>x. iselement x \<and> tag x = ''main'')
                       (route_page [] # descendants (route_page [])))
              = Inr (route_main [])"
    by code_simp
  have u0: "unpack1 (xpath_desc (route_main []) ''ul'') = Inr (route_list [])"
    by code_simp
  have i0: "xpath_child (route_list []) ''li'' = []"
    by code_simp
  have l0: "process_items (demo_library (route_page [])) (length ([] :: node list)) 0 [] []
              = ([], Inr [])"
    by simp
  have m1: "unpack1 (filter (\<lambda>x. iselement x \<and> tag x = ''main'')
                       (route_page [short_item] # descendants (route_page [short_item])))
              = Inr (route_main [short_item])"
    by code_simp
  have u1: "unpack1 (xpath_desc (route_main [short_item]) ''ul'')
              = Inr (route_list [short_item])"
    by code_simp
  have i1: "xpath_child (route_list [short_item]) ''li'' = [short_item]"
    by code_simp
  have l1: "process_items (demo_library (route_page [short_item])) (length [short_item]) 0
              [short_item] []
              = ([Couldnt_parse_place_id 1 (Some ''2222+22'')], Inr [])"
    by code_simp
  have w: "write_gpx argv3 (Some ''Deliveries for 04/09/2022 in Demo'')
             [(Some ''Alex'', ''8FVC2222+22'')]
           = Written ''out.gpx''
               \<lparr>description = Some ''Deliveries for 04/09/2022 in Demo'',
                waypoints = [(Some ''Alex'', ''8FVC2222+22'')]\<rparr>"
    by (simp add: write_gpx_def argv3_def)
  show ?thesis
    using accounting_after_loop [OF a p m2 u2 i2 l2]
      accounting_after_loop [OF a p m0 u0 i0 l0]
      accounting_after_loop [OF a p m1 u1 i1 l1]
    by (simp add: d2 w numeral_2_eq_2)
qed

subsection \<open>The route description\<close>

text \<open>
  The description block ends the run with an exception exactly when there are two
  top-level \<open><div>\<close>s and the second does not match the shape; every other
  failure is caught.
\<close>

lemma xpath_at_most_one: "length (xpath node q) \<le> 1"
  by (simp add: xpath_def)

lemma pat_route_one_optional: "length pat_route - length (mandatory pat_route) = 1"
  by (simp add: pat_route_def mandatory_def)

lemma match_tags_pat_route_no_raise: "\<exists>r. match_tags xpath startnode pat_route = Inr r"
proof (cases "match_tags xpath startnode pat_route")
  case (Inl err)
  from match_tags_raises [OF Inl] pat_route_one_optional
  have "\<exists>tagd node. 1 < length (xpath node (''self::'' @ e_of tagd))" by auto
  then obtain tagd node where "1 < length (xpath node (''self::'' @ e_of tagd))" by blast
  with xpath_at_most_one [of node "''self::'' @ e_of tagd"] show ?thesis by simp
next
  case (Inr r)
  then show ?thesis by blast
qed

lemma match_tags_pat_route_bound:
  "match_tags xpath startnode pat_route = Inr (Some l2) \<Longrightarrow>
     \<exists>v. map_of l2 ''route_reset_div'' = Some v"
  using match_tags_keys [of xpath startnode pat_route l2
      "Slot ''div'' (Some ''route_reset_div'') None" "''route_reset_div''"]
  by (simp add: pat_route_def)

lemma unpack1_error: "unpack1 xs = Inl err \<Longrightarrow> is_ValueError err"
  by (auto simp: unpack1_def split: list.splits)

lemma unpack2_error: "unpack2 xs = Inl err \<Longrightarrow> is_ValueError err"
  by (auto simp: unpack2_def split: list.splits)

lemma route_description_fatal_iff:
  "(\<exists>err. snd (route_description main) = Inl err) \<longleftrightarrow>
     (\<exists>l1div2. unpack2 (xpath_child main ''div'') = Inr l1div2
        \<and> match_tags xpath l1div2 pat_route = Inr None)"
proof (cases "unpack2 (xpath_child main ''div'')")
  case (Inl err)
  then have "description_try main = Inl err" by (simp add: description_try_def bindE_Inl)
  moreover have "caught_description err"
    using unpack2_error [OF Inl] by (cases err) auto
  ultimately show ?thesis using Inl by (simp add: route_description_def)
next
  case (Inr l1div2)
  obtain r where r: "match_tags xpath l1div2 pat_route = Inr r"
    using match_tags_pat_route_no_raise by blast
  show ?thesis
  proof (cases r)
    case None
    then have "description_try main
                 = Inl (TypeError ''NoneType object is not subscriptable'')"
      using Inr r by (simp add: description_try_def bindE_Inr bindE_Inl subscript_def)
    then show ?thesis using Inr r None by (simp add: route_description_def)
  next
    case (Some l2)
    then obtain v where v: "map_of l2 ''route_reset_div'' = Some v"
      using match_tags_pat_route_bound r by blast
    have d: "description_try main =
               bindE (unpack1 (xpath_child v ''div''))
                 (\<lambda>l3div1. Inr (join_sp (split (text_content l3div1))))"
      using Inr r Some v by (simp add: description_try_def bindE_Inr subscript_Some)
    have "\<not> (\<exists>err. snd (route_description main) = Inl err)"
    proof (cases "unpack1 (xpath_child v ''div'')")
      case (Inl err)
      then have "caught_description err" using unpack1_error [OF Inl] by (cases err) auto
      with Inl d show ?thesis by (simp add: route_description_def bindE_Inl)
    next
      case (Inr l3div1)
      with d show ?thesis by (simp add: route_description_def bindE_Inr)
    qed
    then show ?thesis using Inr r Some by simp
  qed
qed

subsection \<open>Whole runs\<close>

text \<open>
  The usage message and exit status 2 occur exactly when \<open>sys.argv\<close> has fewer
  than two entries, that is, when no path at all is given.
\<close>

lemma process_item_no_usage:
  "process_item lib index n listitem = (d, r) \<Longrightarrow> Usage \<notin> set d"
  by (auto simp: process_item_def fallback_def to_waypoint_def Let_def
      split: sum.splits prod.splits if_splits option.splits)

lemma process_items_no_usage:
  "process_items lib n index items routepoints = (d, r) \<Longrightarrow> Usage \<notin> set d"
proof (induction items arbitrary: index routepoints d r)
  case Nil
  then show ?case by simp
next
  case (Cons listitem rest)
  obtain d0 r0 where pi: "process_item lib index n listitem = (d0, r0)"
    by (cases "process_item lib index n listitem") auto
  then have d0: "Usage \<notin> set d0" by (rule process_item_no_usage)
  show ?case
  proof (cases r0)
    case (Inl err)
    with Cons.prems pi d0 show ?thesis by simp
  next
    case (Inr w)
    let ?rp = "routepoints @ (case w of None \<Rightarrow> [] | Some pt \<Rightarrow> [pt])"
    obtain d1 r1 where rec: "process_items lib n (index + 1) rest ?rp = (d1, r1)"
      by (cases "process_items lib n (index + 1) rest ?rp") auto
    from Cons.IH [OF rec] have "Usage \<notin> set d1" .
    moreover from Cons.prems pi Inr rec have "d = d0 @ d1" by simp
    ultimately show ?thesis using d0 by simp
  qed
qed

lemma finish_no_usage:
  "finish argv main n routepoints = (d, out) \<Longrightarrow> Usage \<notin> set d \<and> out \<noteq> Exit 2"
  by (auto simp: finish_def route_description_def write_gpx_def Let_def
      split: sum.splits prod.splits if_splits)

lemma process_document_no_usage:
  "process_document lib argv tree = (d, out) \<Longrightarrow> Usage \<notin> set d \<and> out \<noteq> Exit 2"
  by (auto simp: process_document_def Let_def
      split: sum.splits prod.splits if_splits
      dest: process_items_no_usage finish_no_usage)

lemma usage_only_without_paths:
  "(length argv < 2 \<longrightarrow> run lib argv = ([Usage], Exit 2))
   \<and> (2 \<le> length argv \<longrightarrow> Usage \<notin> set (fst (run lib argv)) \<and> snd (run lib argv) \<noteq> Exit 2)"
proof -
  obtain d out where r: "run lib argv = (d, out)" by (cases "run lib argv") auto
  show ?thesis
  proof (cases "length argv < 2")
    case True
    then show ?thesis by (simp add: run_def)
  next
    case False
    show ?thesis
    proof (cases "html_parse lib (argv ! 1)")
      case (Inl err)
      with False show ?thesis by (simp add: run_def)
    next
      case (Inr tree)
      with False have "run lib argv = process_document lib argv tree" by (simp add: run_def)
      with r process_document_no_usage [of lib argv tree d out] False show ?thesis by simp
    qed
  qed
qed

text \<open>
  C4 (the code departs from the claim).  When the content \<open><div>\<close> does not match
  the shape, \<open>match_tags\<close> returns \<open>None\<close> and \<open>l2['route_reset_div']\<close> raises
  \<open>TypeError\<close>, which \<open>except (ValueError, KeyError)\<close> does not catch: the run
  ends with the exception and writes nothing, although a waypoint was
  collected.
\<close>

theorem description_mismatch_uncaught:
  "run (demo_library (bare_page [good_item])) argv3
     = ([], Uncaught (TypeError ''NoneType object is not subscriptable''))"
  by code_simp

text \<open>
  C5 (the code departs from the claim).  The check is \<open>len(sys.argv) < 2\<close>, so a
  command line with the input path and no output path passes it: no usage
  message, no exit status 2; the run does all its work and ends with the
  \<open>IndexError\<close> of \<open>sys.argv[2]\<close>.
\<close>

theorem one_path_argument_no_usage:
  "run (demo_library (route_page [good_item])) [''cck_gpx.py'', ''in.html'']
     = ([], Uncaught (IndexError ''list index out of range''))"
  by code_simp

text \<open>
  C7 (the code departs from the claim).  A list item with no child fails the first
  shape match by \<open>IndexError\<close>, which the handler of the strict extraction does
  not catch: no diagnostic, no fallback, and the run ends there, although the
  next item is a good one.
\<close>

theorem empty_list_item_uncaught:
  "strict_extract (demo_library (route_page [Element ''li'' [] [], good_item]))
       (Element ''li'' [] [])
     = Inl (IndexError ''pop from empty list'')
   \<and> run (demo_library (route_page [Element ''li'' [] [], good_item])) argv3
       = ([], Uncaught (IndexError ''pop from empty list''))"
proof -
  have a: "strict_extract (demo_library (route_page [Element ''li'' [] [], good_item]))
             (Element ''li'' [] [])
           = Inl (IndexError ''pop from empty list'')"
    by code_simp
  have b: "run (demo_library (route_page [Element ''li'' [] [], good_item])) argv3
             = ([], Uncaught (IndexError ''pop from empty list''))"
    by code_simp
  from a b show ?thesis by simp
qed

text \<open>
  C10 (the code departs from the claim).  The name and code block is matched on
  line 293, before the portions text is tested on line 314.  For an item whose
  wrapper matches fully, whose portions block is bound and reads \<open>2meals\<close>, and
  whose name and code block holds one \<open><p>\<close>, that match raises \<open>IndexError\<close>,
  which the handler does not catch: no \<open>ValueError\<close>, no diagnostic, no fallback,
  and the run ends there.
\<close>

theorem portions_item_uncaught:
  "match_tags xpath one_name_item pat_item
     = Inr (Some [(''div1'', hd (child_nodes one_name_item))])
   \<and> match_tags xpath (hd (child_nodes one_name_item)) pat_main
       = Inr (Some [(''name_olc_div'', Element ''div'' [] [para ''Alex'']),
                    (''addr_p'', para ''1 High Street''),
                    (''portions_div'', portions_block ''meals''),
                    (''insns_p'', para ''Ring the bell''),
                    (''allergies_p'', para ''No allergies''),
                    (''links_div'',
                     links_block ''https://www.google.com/maps/place/8FVC2222+22'')])
   \<and> text_content (portions_block ''meals'') = ''2meals''
   \<and> contains ''2meals'' ''portion'' = False
   \<and> process_item (demo_library (route_page [one_name_item])) 0 1 one_name_item
       = ([], Inl (IndexError ''pop from empty list''))
   \<and> run (demo_library (route_page [one_name_item])) argv3
       = ([], Uncaught (IndexError ''pop from empty list''))"
proof -
  have a: "match_tags xpath one_name_item pat_item
             = Inr (Some [(''div1'', hd (child_nodes one_name_item))])"
    by code_simp
  have b: "match_tags xpath (hd (child_nodes one_name_item)) pat_main
       = Inr (Some [(''name_olc_div'', Element ''div'' [] [para ''Alex'']),
                    (''addr_p'', para ''1 High Street''),
                    (''portions_div'', portions_block ''meals''),
                    (''insns_p'', para ''Ring the bell''),
                    (''allergies_p'', para ''No allergies''),
                    (''links_div'',
                     links_block ''https://www.google.com/maps/place/8FVC2222+22'')])"
    by code_simp
  have c: "text_content (portions_block ''meals'') = ''2meals''" by code_simp
  have d: "contains ''2meals'' ''portion'' = False" by code_simp
  have e: "process_item (demo_library (route_page [one_name_item])) 0 1 one_name_item
             = ([], Inl (IndexError ''pop from empty list''))"
    by code_simp
  have f: "run (demo_library (route_page [one_name_item])) argv3
             = ([], Uncaught (IndexError ''pop from empty list''))"
    by code_simp
  from a b c d e f show ?thesis by blast
qed

text \<open>
  C9 (the code departs from the claim).  A run that collects a waypoint does not
  always reach the output: here one of two items gives a waypoint, the accounting
  prints the "route incomplete" diagnostic, and the run then ends with the
  \<open>TypeError\<close> of the description block, which nobody catches; nothing is written.
\<close>

theorem waypoint_collected_nothing_written:
  "process_items (demo_library (bare_page [good_item, short_item])) 2 0
       [good_item, short_item] []
     = ([Couldnt_parse_place_id 2 (Some ''2222+22'')],
        Inr [(Some ''Alex'', ''8FVC2222+22'')])
   \<and> run (demo_library (bare_page [good_item, short_item])) argv3
       = ([Couldnt_parse_place_id 2 (Some ''2222+22''), Route_incomplete 1 2],
          Uncaught (TypeError ''NoneType object is not subscriptable''))"
proof -
  have a: "process_items (demo_library (bare_page [good_item, short_item])) 2 0
             [good_item, short_item] []
           = ([Couldnt_parse_place_id 2 (Some ''2222+22'')],
              Inr [(Some ''Alex'', ''8FVC2222+22'')])"
    by code_simp
  have b: "run (demo_library (bare_page [good_item, short_item])) argv3
             = ([Couldnt_parse_place_id 2 (Some ''2222+22''), Route_incomplete 1 2],
                Uncaught (TypeError ''NoneType object is not subscriptable''))"
    by code_simp
  from a b show ?thesis by blast
qed

end
